theory Spec2Isabelle
  imports Complex_Main "HOL-Library.Sublist"
begin

section \<open>Exceptions\<close>

text \<open>
  The Python exceptions that the modelled methods of \<^verbatim>\<open>deeprank/learn/DataSet.py\<close> can
  raise.  A method that can raise returns \<open>error + 'a\<close>, with \<open>Inl\<close> for the exception.
\<close>

datatype error =
    OSError | KeyError | NameError | ValueError | IndexError
  | AttributeError | TypeError | ZeroDivisionError

section \<open>Archive shards\<close>

text \<open>
  An HDF5 file is read through \<^verbatim>\<open>h5py\<close>.  What the index building reads of it is, per
  complex, the scalar targets stored under \<^verbatim>\<open>targets/<name>\<close>.  A file is the association
  list of its keys (the complex names, in the order of \<^verbatim>\<open>list(fh5.keys())\<close>) and their
  groups; the file system maps a file name to the file, and a name it does not map is a
  file that \<^verbatim>\<open>h5py.File(fname,'r')\<close> cannot open.  Floating-point values are modelled as
  reals.
\<close>

record molgrp =
  targets :: "(string \<times> real) list"

type_synonym hdf5_file = "(string \<times> molgrp) list"

type_synonym file_system = "(string \<times> hdf5_file) list"

definition h5py_File :: "file_system \<Rightarrow> string \<Rightarrow> error + hdf5_file" where
  "h5py_File fs fname = (case map_of fs fname of None \<Rightarrow> Inl OSError | Some f \<Rightarrow> Inr f)"

section \<open>Filter conditions\<close>

text \<open>
  A value of \<^verbatim>\<open>dict_filter\<close> is either a string or something else.  \<^verbatim>\<open>DataSet.filter\<close>
  rewrites a string by putting \<^verbatim>\<open>val\<close> in front of every \<^verbatim>\<open>>\<close>, \<^verbatim>\<open><\<close> and \<^verbatim>\<open>==\<close> and
  hands the result to Python's \<^verbatim>\<open>eval\<close>.  The strings are modelled by the expressions they
  denote once rewritten: comparisons of \<^verbatim>\<open>val\<close> with a literal, joined by \<^verbatim>\<open>or\<close> and
  \<^verbatim>\<open>and\<close>.
\<close>

datatype expr = Lt real | Gt real | Eq real | Or expr expr | And expr expr

datatype cond_vals = CondStr expr | CondOther

fun eval_expr :: "real \<Rightarrow> expr \<Rightarrow> bool" where
  "eval_expr val (Lt c) = (val < c)"
| "eval_expr val (Gt c) = (val > c)"
| "eval_expr val (Eq c) = (val = c)"
| "eval_expr val (Or a b) = (eval_expr val a \<or> eval_expr val b)"
| "eval_expr val (And a b) = (eval_expr val a \<and> eval_expr val b)"

section \<open>Arrays\<close>

text \<open>
  A \<^verbatim>\<open>numpy\<close> array is its shape and its elements in row-major order.
\<close>

record ndarray =
  shape :: "nat list"
  flat :: "real list"


section \<open>The data set\<close>

text \<open>What is printed on standard output while the index is built.\<close>

datatype message = IgnoreFile string | Inst error

text \<open>
  The value of \<^verbatim>\<open>pair_chain_feature\<close>: \<^verbatim>\<open>None\<close> (or any other false value), a callable
  taking two arrays, or a true value that is not callable.
\<close>

datatype pair_chain = PairNone | PairCallable "ndarray \<Rightarrow> ndarray \<Rightarrow> error + ndarray" | PairOther

text \<open>
  The attributes of a \<^verbatim>\<open>DataSet\<close> instance that the modelled methods read or write,
  and in \<open>stdout\<close> what they have printed.  \<^verbatim>\<open>test_database\<close> and \<^verbatim>\<open>dict_filter\<close> may
  be \<^verbatim>\<open>None\<close>.  \<^verbatim>\<open>feature_mean\<close>, \<^verbatim>\<open>feature_std\<close>, \<^verbatim>\<open>target_min\<close> and
  \<^verbatim>\<open>target_max\<close> exist only once \<^verbatim>\<open>get_norm\<close> has run: there \<open>None\<close> is the missing
  attribute.
\<close>

record dataset =
  database :: "string list"
  test_database :: "string list option"
  select_pdb :: "string list"
  dict_filter :: "(string \<times> cond_vals) list option"
  index_complexes :: "(string \<times> string) list"
  ntrain :: nat
  index_train :: "nat list"
  ntot :: nat
  index_test :: "nat list"
  stdout :: "message list"
  clip_features :: bool
  clip_factor :: real
  normalize_features :: bool
  normalize_targets :: bool
  pair_chain_feature :: pair_chain
  pair_indexes :: "nat list list"
  transform :: bool
  proj2D :: int
  data_shape :: "nat list"
  feature_mean :: "real list option"
  feature_std :: "real list option"
  target_min :: "real option"
  target_max :: "real option"

subsection \<open>\<^verbatim>\<open>DataSet.filter\<close>\<close>

text \<open>
  The loop over \<^verbatim>\<open>self.dict_filter.items()\<close>.  When the target is not stored, the
  \<^verbatim>\<open>KeyError\<close> handler formats its message with \<^verbatim>\<open>mol\<close>, a name bound nowhere in the
  method or the module: the handler raises \<^verbatim>\<open>NameError\<close>.
\<close>

fun filter_conds :: "molgrp \<Rightarrow> (string \<times> cond_vals) list \<Rightarrow> error + bool" where
  "filter_conds molgrp [] = Inr True"
| "filter_conds molgrp ((cond_name, cond_vals) # rest) =
     (case map_of (targets molgrp) cond_name of
        None \<Rightarrow> Inl NameError
      | Some val \<Rightarrow>
          (case cond_vals of
             CondStr e \<Rightarrow> if \<not> eval_expr val e then Inr False else filter_conds molgrp rest
           | CondOther \<Rightarrow> Inl ValueError))"

definition filter_mol :: "dataset \<Rightarrow> molgrp \<Rightarrow> error + bool" where
  "filter_mol ds molgrp =
     (case dict_filter ds of None \<Rightarrow> Inr True | Some conds \<Rightarrow> filter_conds molgrp conds)"

subsection \<open>\<^verbatim>\<open>DataSet.create_index_molecules\<close>\<close>

text \<open>
  \<^verbatim>\<open>mol_names\<close> of a file: its keys, intersected with \<^verbatim>\<open>select_pdb\<close> when that list is
  not empty.  Python iterates the intersection, a \<^verbatim>\<open>set\<close>, in an order of its own; the
  model lists it in the order of the keys.
\<close>

definition mol_names_of :: "dataset \<Rightarrow> hdf5_file \<Rightarrow> string list" where
  "mol_names_of ds fh5 =
     (let mol_names = map fst fh5
      in if select_pdb ds \<noteq> [] then [k \<leftarrow> mol_names. k \<in> set (select_pdb ds)] else mol_names)"

text \<open>
  The loop \<^verbatim>\<open>for k in mol_names\<close> of the training files.  An exception leaves the loop;
  the entries appended before it stay in \<^verbatim>\<open>index_complexes\<close>.
\<close>

fun index_train_mols :: "string \<Rightarrow> hdf5_file \<Rightarrow> string list \<Rightarrow> dataset \<Rightarrow> dataset \<times> error option" where
  "index_train_mols fdata fh5 [] ds = (ds, None)"
| "index_train_mols fdata fh5 (k # ks) ds =
     (case map_of fh5 k of
        None \<Rightarrow> (ds, Some KeyError)
      | Some molgrp \<Rightarrow>
          (case filter_mol ds molgrp of
             Inl e \<Rightarrow> (ds, Some e)
           | Inr keep \<Rightarrow>
               index_train_mols fdata fh5 ks
                 (if keep then ds\<lparr>index_complexes := index_complexes ds @ [(fdata, k)]\<rparr> else ds)))"

text \<open>The body of the loop over the training files, with its \<^verbatim>\<open>except Exception\<close>.\<close>

definition index_train_file :: "file_system \<Rightarrow> dataset \<Rightarrow> string \<Rightarrow> dataset" where
  "index_train_file fs ds fdata =
     (case h5py_File fs fdata of
        Inl inst \<Rightarrow> ds\<lparr>stdout := stdout ds @ [IgnoreFile fdata, Inst inst]\<rparr>
      | Inr fh5 \<Rightarrow>
          (case index_train_mols fdata fh5 (mol_names_of ds fh5) ds of
             (ds', None) \<Rightarrow> ds'
           | (ds', Some inst) \<Rightarrow> ds'\<lparr>stdout := stdout ds' @ [IgnoreFile fdata, Inst inst]\<rparr>))"

text \<open>The body of the loop over the test files, with its bare \<^verbatim>\<open>except\<close>.\<close>

definition index_test_file :: "file_system \<Rightarrow> dataset \<Rightarrow> string \<Rightarrow> dataset" where
  "index_test_file fs ds fdata =
     (case h5py_File fs fdata of
        Inl inst \<Rightarrow> ds\<lparr>stdout := stdout ds @ [IgnoreFile fdata]\<rparr>
      | Inr fh5 \<Rightarrow>
          ds\<lparr>index_complexes := index_complexes ds @ [(fdata, k). k \<leftarrow> mol_names_of ds fh5]\<rparr>)"

definition create_index_molecules :: "file_system \<Rightarrow> dataset \<Rightarrow> dataset" where
  "create_index_molecules fs ds0 =
     (let ds = ds0\<lparr>index_complexes := []\<rparr>;
          ds = foldl (index_train_file fs) ds (database ds);
          ds = ds\<lparr>ntrain := length (index_complexes ds)\<rparr>;
          ds = ds\<lparr>index_train := [0..<ntrain ds]\<rparr>;
          ds = (case test_database ds of
                  None \<Rightarrow> ds
                | Some tdb \<Rightarrow> foldl (index_test_file fs) ds tdb);
          ds = ds\<lparr>ntot := length (index_complexes ds)\<rparr>
      in ds\<lparr>index_test := [ntrain ds..<ntot ds]\<rparr>)"

subsection \<open>\<^verbatim>\<open>DataSet.__len__\<close>\<close>


subsection \<open>\<^verbatim>\<open>DataSet.get_feature_name\<close>\<close>











subsection \<open>Normalization statistics\<close>

text \<open>
  Modelled from the spec: the class \<^verbatim>\<open>NormParam\<close> of \<^verbatim>\<open>deeprank.generate\<close>, which is not
  among the sources.  \<^verbatim>\<open>DataSet._read_norm\<close> reads its attributes \<^verbatim>\<open>mean\<close>, \<^verbatim>\<open>var\<close> and
  \<^verbatim>\<open>std\<close> and calls \<^verbatim>\<open>add(mean,var)\<close> once per file and \<^verbatim>\<open>process(nfile)\<close> at the end.
  By the specification the pooled mean and the pooled variance are the arithmetic means of
  the files' means and variances, and the standard deviation is the square root of the
  pooled variance.  Dividing by a file count of zero raises \<^verbatim>\<open>ZeroDivisionError\<close>.
\<close>

record NormParam =
  mean :: real
  var :: real
  std :: real

definition NormParam_init :: NormParam where
  "NormParam_init = \<lparr>mean = 0, var = 0, std = 0\<rparr>"

definition add :: "NormParam \<Rightarrow> real \<Rightarrow> real \<Rightarrow> NormParam" where
  "add p m v = p\<lparr>mean := mean p + m, var := var p + v\<rparr>"

definition process :: "NormParam \<Rightarrow> nat \<Rightarrow> error + NormParam" where
  "process p n =
     (if n = 0 then Inl ZeroDivisionError
      else Inr (p\<lparr>mean := mean p / real n, var := var p / real n, std := sqrt (var p / real n)\<rparr>))"

text \<open>
  \<^verbatim>\<open>self.param_norm['features']\<close>: a dictionary from feature type to a dictionary from
  feature name to its \<^verbatim>\<open>NormParam\<close>.
\<close>

type_synonym feat_dict = "(string \<times> NormParam) list"

type_synonym param_features = "(string \<times> feat_dict) list"

text \<open>
  The last loop of \<^verbatim>\<open>DataSet._read_norm\<close> (``process the std''), over the names of one
  feature type and over the feature types.  Beside the dictionary it returns the pairs
  \<^verbatim>\<open>(feat_types, feat)\<close> for which it printed \<^verbatim>\<open>Final STD Null ... Changed it to 1\<close>.
\<close>

fun process_feat_dict :: "nat \<Rightarrow> string \<Rightarrow> feat_dict \<Rightarrow> error + feat_dict \<times> (string \<times> string) list" where
  "process_feat_dict nfile feat_types [] = Inr ([], [])"
| "process_feat_dict nfile feat_types ((feat, p) # rest) =
     (case process p nfile of
        Inl e \<Rightarrow> Inl e
      | Inr q \<Rightarrow>
          (case process_feat_dict nfile feat_types rest of
             Inl e \<Rightarrow> Inl e
           | Inr (rest', warned) \<Rightarrow>
               (if std q = 0 then Inr ((feat, q\<lparr>std := 1\<rparr>) # rest', (feat_types, feat) # warned)
                else Inr ((feat, q) # rest', warned))))"

fun process_std :: "nat \<Rightarrow> param_features \<Rightarrow> error + param_features \<times> (string \<times> string) list" where
  "process_std nfile [] = Inr ([], [])"
| "process_std nfile ((feat_types, fd) # rest) =
     (case process_feat_dict nfile feat_types fd of
        Inl e \<Rightarrow> Inl e
      | Inr (fd', warned) \<Rightarrow>
          (case process_std nfile rest of
             Inl e \<Rightarrow> Inl e
           | Inr (rest', warned') \<Rightarrow> Inr ((feat_types, fd') # rest', warned @ warned')))"

subsection \<open>Operations of \<^verbatim>\<open>numpy\<close>\<close>






text \<open>
  \<^verbatim>\<open>a.reshape(-1, d1, d2, d3).squeeze()\<close>: the first dimension is what is left of the size
  (an error when the others do not divide it, or multiply to zero); \<^verbatim>\<open>squeeze\<close> drops
  every axis of length one.
\<close>

definition reshape_squeeze :: "ndarray \<Rightarrow> nat list \<Rightarrow> error + ndarray" where
  "reshape_squeeze a dims =
     (let known = prod_list dims; size = length (flat a)
      in if known = 0 \<or> size mod known \<noteq> 0 then Inl ValueError
         else Inr (a\<lparr>shape := [d \<leftarrow> (size div known) # dims. d \<noteq> 1]\<rparr>))"

subsection \<open>The transforms of \<^verbatim>\<open>DataSet\<close>\<close>





text \<open>
  \<^verbatim>\<open>DataSet._normalize_target\<close> and \<^verbatim>\<open>DataSet.backtransform_target\<close>, on the array of
  target values.  The same remark applies to a \<^verbatim>\<open>target_max\<close> of zero.
\<close>

definition normalize_target :: "dataset \<Rightarrow> real list \<Rightarrow> error + real list" where
  "normalize_target ds target =
     (case target_min ds of
        None \<Rightarrow> Inl AttributeError
      | Some tmin \<Rightarrow>
          (case target_max ds of
             None \<Rightarrow> Inl AttributeError
           | Some tmax \<Rightarrow> Inr (map (\<lambda>t. (t - tmin) / tmax) target)))"

definition backtransform_target :: "dataset \<Rightarrow> real list \<Rightarrow> error + real list" where
  "backtransform_target ds data =
     (case target_max ds of
        None \<Rightarrow> Inl AttributeError
      | Some tmax \<Rightarrow>
          (case target_min ds of
             None \<Rightarrow> Inl AttributeError
           | Some tmin \<Rightarrow> Inr (map (\<lambda>x. x * tmax + tmin) data)))"



text \<open>\<^verbatim>\<open>DataSet.convert2d\<close>.\<close>

definition convert2d :: "ndarray \<Rightarrow> int \<Rightarrow> error + ndarray" where
  "convert2d feature proj2d =
     (case shape feature of
        [nc, nx, ny, nz] \<Rightarrow>
          if proj2d = 0 then reshape_squeeze feature [1, ny, nz]
          else if proj2d = 1 then reshape_squeeze feature [nx, 1, nz]
          else if proj2d = 2 then reshape_squeeze feature [nx, ny, 1]
          else Inr feature
      | _ \<Rightarrow> Inl ValueError)"

subsection \<open>\<^verbatim>\<open>DataSet.__getitem__\<close>\<close>





section \<open>Auxiliary definitions\<close>

text \<open>
  The entries that the loops of \<^verbatim>\<open>create_index_molecules\<close> append, as functions of what
  the loops read: the file system, \<^verbatim>\<open>dict_filter\<close> and \<^verbatim>\<open>select_pdb\<close>.
\<close>

definition filter_opt :: "(string \<times> cond_vals) list option \<Rightarrow> molgrp \<Rightarrow> error + bool" where
  "filter_opt df molgrp = (case df of None \<Rightarrow> Inr True | Some conds \<Rightarrow> filter_conds molgrp conds)"

fun train_keys :: "(string \<times> cond_vals) list option \<Rightarrow> hdf5_file \<Rightarrow> string list \<Rightarrow> string list" where
  "train_keys df fh5 [] = []"
| "train_keys df fh5 (k # ks) =
     (case map_of fh5 k of
        None \<Rightarrow> []
      | Some molgrp \<Rightarrow>
          (case filter_opt df molgrp of
             Inl e \<Rightarrow> []
           | Inr keep \<Rightarrow> (if keep then [k] else []) @ train_keys df fh5 ks))"

definition names_sel :: "string list \<Rightarrow> hdf5_file \<Rightarrow> string list" where
  "names_sel sel fh5 = (if sel \<noteq> [] then [k \<leftarrow> map fst fh5. k \<in> set sel] else map fst fh5)"

definition train_entries :: "file_system \<Rightarrow> (string \<times> cond_vals) list option \<Rightarrow> string list \<Rightarrow> string \<Rightarrow> (string \<times> string) list" where
  "train_entries fs df sel fdata =
     (case map_of fs fdata of
        None \<Rightarrow> []
      | Some fh5 \<Rightarrow> map (Pair fdata) (train_keys df fh5 (names_sel sel fh5)))"

definition test_entries :: "file_system \<Rightarrow> string list \<Rightarrow> string \<Rightarrow> (string \<times> string) list" where
  "test_entries fs sel fdata =
     (case map_of fs fdata of
        None \<Rightarrow> []
      | Some fh5 \<Rightarrow> map (Pair fdata) (names_sel sel fh5))"

definition train_part :: "file_system \<Rightarrow> dataset \<Rightarrow> (string \<times> string) list" where
  "train_part fs ds = concat (map (train_entries fs (dict_filter ds) (select_pdb ds)) (database ds))"

definition test_part :: "file_system \<Rightarrow> dataset \<Rightarrow> (string \<times> string) list" where
  "test_part fs ds =
     (case test_database ds of
        None \<Rightarrow> []
      | Some tdb \<Rightarrow> concat (map (test_entries fs (select_pdb ds)) tdb))"

text \<open>
  The train pool and the test pool of a data set: the entries that the index holds when it
  is built from the training files alone, and from the test files alone.
\<close>

definition train_pool :: "file_system \<Rightarrow> dataset \<Rightarrow> (string \<times> string) list" where
  "train_pool fs ds = index_complexes (create_index_molecules fs (ds\<lparr>test_database := None\<rparr>))"

definition test_pool :: "file_system \<Rightarrow> dataset \<Rightarrow> (string \<times> string) list" where
  "test_pool fs ds = index_complexes (create_index_molecules fs (ds\<lparr>database := []\<rparr>))"



text \<open>
  What the last loop of \<^verbatim>\<open>_read_norm\<close> makes of the accumulated parameter \<open>p\<close> of a
  feature: the pooled mean and variance are the sums divided by the number of files, the
  standard deviation is not zero, and it is 1, with a warning, when the pooled variance is
  zero.
\<close>

definition pooled :: "nat \<Rightarrow> string \<Rightarrow> (string \<times> string) list \<Rightarrow> string \<times> NormParam \<Rightarrow> string \<times> NormParam \<Rightarrow> bool" where
  "pooled nfile feat_types warned = (\<lambda>(feat, p) (feat', p').
     feat' = feat \<and> std p' \<noteq> 0 \<and>
     mean p' = mean p / real nfile \<and> var p' = var p / real nfile \<and>
     (if var p' = 0 then std p' = 1 \<and> (feat_types, feat) \<in> set warned else std p' = sqrt (var p')))"

definition pooled_type :: "nat \<Rightarrow> (string \<times> string) list \<Rightarrow> string \<times> feat_dict \<Rightarrow> string \<times> feat_dict \<Rightarrow> bool" where
  "pooled_type nfile warned = (\<lambda>(feat_types, fd) (feat_types', fd').
     feat_types' = feat_types \<and> list_all2 (pooled nfile feat_types warned) fd fd')"

text \<open>
  An array in which the elements of the channels in \<open>C\<close> are mapped by \<open>g\<close> (given the
  channel), \<open>sz\<close> being the number of elements of a channel; and the clipping of the
  elements of channel \<open>ic\<close>.
\<close>

definition chan_update :: "(nat \<Rightarrow> real \<Rightarrow> real) \<Rightarrow> nat \<Rightarrow> nat set \<Rightarrow> real list \<Rightarrow> real list" where
  "chan_update g sz C xs =
     map (\<lambda>i. if i div sz \<in> C then g (i div sz) (xs ! i) else xs ! i) [0..<length xs]"


section \<open>Example data\<close>

text \<open>
  A file with three complexes, the second of which stores no \<^verbatim>\<open>IRMSD\<close>, a file with two
  complexes, and data sets over them.
\<close>

definition grp :: "real \<Rightarrow> molgrp" where
  "grp v = \<lparr>targets = [(''IRMSD'', v)]\<rparr>"

definition file_a :: hdf5_file where
  "file_a = [(''m1'', grp 1), (''m2'', \<lparr>targets = [(''DOCKQ'', 1)]\<rparr>), (''m3'', grp 2)]"

definition file_b :: hdf5_file where
  "file_b = [(''n1'', grp 3), (''n2'', grp 5)]"

definition fs_ex :: file_system where
  "fs_ex = [(''a.hdf5'', file_a), (''b.hdf5'', file_b)]"

definition ds_ex :: dataset where
  "ds_ex = \<lparr>database = [''b.hdf5''], test_database = Some [''b.hdf5''], select_pdb = [],
     dict_filter = Some [(''IRMSD'', CondStr (Lt 4))],
     index_complexes = [], ntrain = 0, index_train = [], ntot = 0, index_test = [], stdout = [],
     clip_features = True, clip_factor = 3 / 2, normalize_features = True,
     normalize_targets = True, pair_chain_feature = PairNone, pair_indexes = [],
     transform = False, proj2D = 0, data_shape = [1, 1, 1, 2],
     feature_mean = Some [0], feature_std = Some [1], target_min = Some 1, target_max = Some 4\<rparr>"

text \<open>The training files alone, and a filter that no complex of \<^verbatim>\<open>b.hdf5\<close> passes.\<close>

definition ds_train :: dataset where
  "ds_train = ds_ex\<lparr>database := [''a.hdf5'', ''b.hdf5''], test_database := None\<rparr>"

definition ds_none :: dataset where
  "ds_none = ds_ex\<lparr>test_database := None, dict_filter := Some [(''IRMSD'', CondStr (Gt 10))]\<rparr>"


definition feature_ex :: ndarray where
  "feature_ex = \<lparr>shape = [2, 1, 1, 2], flat = [5, 1, -5, 0]\<rparr>"





text \<open>
  The sums of a feature over two files with means 1 and 3 and variances 0 and 2, and of a
  feature whose variance is 0 in both files.
\<close>

definition feats_ex :: param_features where
  "feats_ex = [(''Feature_ind'',
      [(''coulomb_chainA'', add (add NormParam_init 1 0) 3 2),
       (''coulomb_chainB'', add (add NormParam_init 1 0) 3 0)])]"

section \<open>The index of complexes\<close>

lemma h5py_File_Inr: "h5py_File fs f = Inr fh5 \<longleftrightarrow> map_of fs f = Some fh5"
  by (simp add: h5py_File_def split: option.splits)

lemma filter_mol_opt: "filter_mol ds g = filter_opt (dict_filter ds) g"
  by (simp add: filter_mol_def filter_opt_def)

lemma index_train_mols_keys:
  "fst (index_train_mols fdata fh5 ks ds) =
     ds\<lparr>index_complexes := index_complexes ds @ map (Pair fdata) (train_keys (dict_filter ds) fh5 ks)\<rparr>"
proof (induction ks arbitrary: ds)
  case Nil
  then show ?case by simp
next
  case (Cons k ks)
  show ?case
  proof (cases "map_of fh5 k")
    case None
    then show ?thesis by simp
  next
    case (Some g)
    show ?thesis
    proof (cases "filter_opt (dict_filter ds) g")
      case (Inl e)
      with Some show ?thesis by (simp add: filter_mol_opt)
    next
      case (Inr keep)
      with Some show ?thesis by (simp add: filter_mol_opt Cons.IH)
    qed
  qed
qed

lemma mol_names_sel: "mol_names_of ds fh5 = names_sel (select_pdb ds) fh5"
  by (simp add: mol_names_of_def names_sel_def)

lemma index_train_file_entries:
  "\<exists>out. index_train_file fs ds fdata =
     ds\<lparr>index_complexes := index_complexes ds @ train_entries fs (dict_filter ds) (select_pdb ds) fdata,
        stdout := out\<rparr>"
proof (cases "map_of fs fdata")
  case None
  then have "index_train_file fs ds fdata =
       ds\<lparr>index_complexes := index_complexes ds @ train_entries fs (dict_filter ds) (select_pdb ds) fdata,
          stdout := stdout ds @ [IgnoreFile fdata, Inst OSError]\<rparr>"
    by (simp add: index_train_file_def h5py_File_def train_entries_def)
  then show ?thesis by blast
next
  case (Some fh5)
  obtain d e where de: "index_train_mols fdata fh5 (mol_names_of ds fh5) ds = (d, e)"
    by (cases "index_train_mols fdata fh5 (mol_names_of ds fh5) ds")
  have d: "d = ds\<lparr>index_complexes := index_complexes ds @
      map (Pair fdata) (train_keys (dict_filter ds) fh5 (mol_names_of ds fh5))\<rparr>"
    using index_train_mols_keys [of fdata fh5 "mol_names_of ds fh5" ds] de by simp
  show ?thesis
  proof (cases e)
    case None
    have "index_train_file fs ds fdata = d"
      using Some de None by (simp add: index_train_file_def h5py_File_def)
    then have "index_train_file fs ds fdata =
       ds\<lparr>index_complexes := index_complexes ds @ train_entries fs (dict_filter ds) (select_pdb ds) fdata,
          stdout := stdout ds\<rparr>"
      using d Some by (simp add: train_entries_def mol_names_sel)
    then show ?thesis by blast
  next
    case (Some inst)
    have "index_train_file fs ds fdata = d\<lparr>stdout := stdout d @ [IgnoreFile fdata, Inst inst]\<rparr>"
      using \<open>map_of fs fdata = Some fh5\<close> de Some by (simp add: index_train_file_def h5py_File_def)
    then have "index_train_file fs ds fdata =
       ds\<lparr>index_complexes := index_complexes ds @ train_entries fs (dict_filter ds) (select_pdb ds) fdata,
          stdout := stdout ds @ [IgnoreFile fdata, Inst inst]\<rparr>"
      using d \<open>map_of fs fdata = Some fh5\<close> by (simp add: train_entries_def mol_names_sel)
    then show ?thesis by blast
  qed
qed

lemma index_test_file_entries:
  "\<exists>out. index_test_file fs ds fdata =
     ds\<lparr>index_complexes := index_complexes ds @ test_entries fs (select_pdb ds) fdata,
        stdout := out\<rparr>"
proof (cases "map_of fs fdata")
  case None
  then have "index_test_file fs ds fdata =
     ds\<lparr>index_complexes := index_complexes ds @ test_entries fs (select_pdb ds) fdata,
        stdout := stdout ds @ [IgnoreFile fdata]\<rparr>"
    by (simp add: index_test_file_def h5py_File_def test_entries_def)
  then show ?thesis by blast
next
  case (Some fh5)
  then have "index_test_file fs ds fdata =
     ds\<lparr>index_complexes := index_complexes ds @ test_entries fs (select_pdb ds) fdata,
        stdout := stdout ds\<rparr>"
    by (simp add: index_test_file_def h5py_File_def test_entries_def mol_names_sel)
  then show ?thesis by blast
qed

lemma foldl_train_entries:
  "\<exists>out. foldl (index_train_file fs) ds fnames =
     ds\<lparr>index_complexes := index_complexes ds @
            concat (map (train_entries fs (dict_filter ds) (select_pdb ds)) fnames),
        stdout := out\<rparr>"
proof (induction fnames arbitrary: ds)
  case Nil
  have "foldl (index_train_file fs) ds [] = ds\<lparr>index_complexes := index_complexes ds @ concat (map (train_entries fs (dict_filter ds) (select_pdb ds)) []), stdout := stdout ds\<rparr>"
    by simp
  then show ?case by blast
next
  case (Cons f fnames)
  obtain out1 where o1: "index_train_file fs ds f =
     ds\<lparr>index_complexes := index_complexes ds @ train_entries fs (dict_filter ds) (select_pdb ds) f,
        stdout := out1\<rparr>"
    using index_train_file_entries by blast
  obtain out2 where o2: "foldl (index_train_file fs) (index_train_file fs ds f) fnames =
     (index_train_file fs ds f)\<lparr>index_complexes := index_complexes (index_train_file fs ds f) @
            concat (map (train_entries fs (dict_filter (index_train_file fs ds f)) (select_pdb (index_train_file fs ds f))) fnames),
        stdout := out2\<rparr>"
    using Cons.IH by blast
  have "foldl (index_train_file fs) ds (f # fnames) =
     ds\<lparr>index_complexes := index_complexes ds @
            concat (map (train_entries fs (dict_filter ds) (select_pdb ds)) (f # fnames)),
        stdout := out2\<rparr>"
    by (simp add: o2) (simp add: o1)
  then show ?case by blast
qed

lemma foldl_test_entries:
  "\<exists>out. foldl (index_test_file fs) ds fnames =
     ds\<lparr>index_complexes := index_complexes ds @
            concat (map (test_entries fs (select_pdb ds)) fnames),
        stdout := out\<rparr>"
proof (induction fnames arbitrary: ds)
  case Nil
  have "foldl (index_test_file fs) ds [] = ds\<lparr>index_complexes := index_complexes ds @ concat (map (test_entries fs (select_pdb ds)) []), stdout := stdout ds\<rparr>"
    by simp
  then show ?case by blast
next
  case (Cons f fnames)
  obtain out1 where o1: "index_test_file fs ds f =
     ds\<lparr>index_complexes := index_complexes ds @ test_entries fs (select_pdb ds) f,
        stdout := out1\<rparr>"
    using index_test_file_entries by blast
  obtain out2 where o2: "foldl (index_test_file fs) (index_test_file fs ds f) fnames =
     (index_test_file fs ds f)\<lparr>index_complexes := index_complexes (index_test_file fs ds f) @
            concat (map (test_entries fs (select_pdb (index_test_file fs ds f))) fnames),
        stdout := out2\<rparr>"
    using Cons.IH by blast
  have "foldl (index_test_file fs) ds (f # fnames) =
     ds\<lparr>index_complexes := index_complexes ds @
            concat (map (test_entries fs (select_pdb ds)) (f # fnames)),
        stdout := out2\<rparr>"
    by (simp add: o2) (simp add: o1)
  then show ?case by blast
qed

lemma create_index_molecules_parts:
  "index_complexes (create_index_molecules fs ds) = train_part fs ds @ test_part fs ds"
  "ntrain (create_index_molecules fs ds) = length (train_part fs ds)"
  "ntot (create_index_molecules fs ds) = length (train_part fs ds @ test_part fs ds)"
  "index_train (create_index_molecules fs ds) = [0..<length (train_part fs ds)]"
  "index_test (create_index_molecules fs ds) =
     [length (train_part fs ds)..<length (train_part fs ds @ test_part fs ds)]"
proof -
  define s1 where "s1 = foldl (index_train_file fs) (ds\<lparr>index_complexes := []\<rparr>)
                          (database (ds\<lparr>index_complexes := []\<rparr>))"
  define s2 where "s2 = s1\<lparr>ntrain := length (index_complexes s1)\<rparr>"
  define s3 where "s3 = s2\<lparr>index_train := [0..<ntrain s2]\<rparr>"
  define s4 where "s4 = (case test_database s3 of None \<Rightarrow> s3
                         | Some tdb \<Rightarrow> foldl (index_test_file fs) s3 tdb)"
  define s5 where "s5 = s4\<lparr>ntot := length (index_complexes s4)\<rparr>"
  have res: "create_index_molecules fs ds = s5\<lparr>index_test := [ntrain s5..<ntot s5]\<rparr>"
    unfolding create_index_molecules_def s5_def s4_def s3_def s2_def s1_def Let_def by (rule refl)
  obtain out1 where o1: "s1 = ds\<lparr>index_complexes := train_part fs ds, stdout := out1\<rparr>"
    using foldl_train_entries [of fs "ds\<lparr>index_complexes := []\<rparr>" "database ds"]
    by (auto simp: train_part_def s1_def)
  have s3: "index_complexes s3 = train_part fs ds" "ntrain s3 = length (train_part fs ds)"
    "index_train s3 = [0..<length (train_part fs ds)]" "test_database s3 = test_database ds"
    "select_pdb s3 = select_pdb ds"
    by (simp_all add: s3_def s2_def o1)
  have "\<exists>out2. s4 = s3\<lparr>index_complexes := train_part fs ds @ test_part fs ds, stdout := out2\<rparr>"
  proof (cases "test_database ds")
    case None
    then have "s4 = s3\<lparr>index_complexes := train_part fs ds @ test_part fs ds, stdout := stdout s3\<rparr>"
      using s3 by (simp add: s4_def test_part_def)
    then show ?thesis by blast
  next
    case (Some tdb)
    obtain out2 where "foldl (index_test_file fs) s3 tdb =
      s3\<lparr>index_complexes := index_complexes s3 @ concat (map (test_entries fs (select_pdb s3)) tdb), stdout := out2\<rparr>"
      using foldl_test_entries by blast
    then have "s4 = s3\<lparr>index_complexes := train_part fs ds @ test_part fs ds, stdout := out2\<rparr>"
      using Some s3 by (simp add: s4_def test_part_def)
    then show ?thesis by blast
  qed
  then obtain out2 where o2:
    "s4 = s3\<lparr>index_complexes := train_part fs ds @ test_part fs ds, stdout := out2\<rparr>"
    by blast
  have s4: "index_complexes s4 = train_part fs ds @ test_part fs ds"
    "ntrain s4 = length (train_part fs ds)" "index_train s4 = [0..<length (train_part fs ds)]"
    using s3 by (simp_all add: o2)
  show "index_complexes (create_index_molecules fs ds) = train_part fs ds @ test_part fs ds"
    by (simp add: res s5_def s4)
  show "ntrain (create_index_molecules fs ds) = length (train_part fs ds)"
    by (simp add: res s5_def s4)
  show "ntot (create_index_molecules fs ds) = length (train_part fs ds @ test_part fs ds)"
    by (simp add: res s5_def s4)
  show "index_train (create_index_molecules fs ds) = [0..<length (train_part fs ds)]"
    by (simp add: res s5_def s4)
  show "index_test (create_index_molecules fs ds) =
     [length (train_part fs ds)..<length (train_part fs ds @ test_part fs ds)]"
    by (simp add: res s5_def s4)
qed

lemma train_keys_kept:
  "k \<in> set (train_keys df fh5 ks) \<Longrightarrow>
     k \<in> set ks \<and> (\<exists>g. map_of fh5 k = Some g \<and> filter_opt df g = Inr True)"
proof (induction ks)
  case Nil
  then show ?case by simp
next
  case (Cons a ks)
  show ?case
  proof (cases "map_of fh5 a")
    case None
    with Cons.prems show ?thesis by simp
  next
    case (Some g)
    show ?thesis
    proof (cases "filter_opt df g")
      case (Inl e)
      with Some Cons.prems show ?thesis by simp
    next
      case (Inr keep)
      with Some Cons.prems have "(keep \<and> k = a) \<or> k \<in> set (train_keys df fh5 ks)"
        by (auto split: if_splits)
      then show ?thesis
        using Cons.IH Some Inr by auto
    qed
  qed
qed

lemma names_sel_keys: "set (names_sel sel fh5) \<subseteq> fst ` set fh5"
  by (auto simp: names_sel_def)

lemma train_entries_kept:
  assumes "(f, k) \<in> set (train_entries fs df sel fdata)"
  shows "f = fdata \<and> (\<exists>fh5 g. map_of fs f = Some fh5 \<and> k \<in> fst ` set fh5 \<and>
           map_of fh5 k = Some g \<and> filter_opt df g = Inr True)"
proof (cases "map_of fs fdata")
  case None
  with assms show ?thesis by (simp add: train_entries_def)
next
  case (Some fh5)
  with assms have f: "f = fdata" and k: "k \<in> set (train_keys df fh5 (names_sel sel fh5))"
    by (auto simp: train_entries_def)
  from train_keys_kept [OF k] names_sel_keys [of sel fh5] Some f show ?thesis by auto
qed

lemma test_entries_keys:
  assumes "(f, k) \<in> set (test_entries fs sel fdata)"
  shows "f = fdata \<and> (\<exists>fh5. map_of fs f = Some fh5 \<and> k \<in> fst ` set fh5)"
proof (cases "map_of fs fdata")
  case None
  with assms show ?thesis by (simp add: test_entries_def)
next
  case (Some fh5)
  with assms names_sel_keys [of sel fh5] show ?thesis
    by (auto simp: test_entries_def)
qed

lemma train_part_kept:
  assumes "(f, k) \<in> set (train_part fs ds)"
  shows "f \<in> set (database ds) \<and> (\<exists>fh5 g. map_of fs f = Some fh5 \<and> k \<in> fst ` set fh5 \<and>
           map_of fh5 k = Some g \<and> filter_mol ds g = Inr True)"
  using assms train_entries_kept [of f k fs "dict_filter ds" "select_pdb ds"]
  by (auto simp: train_part_def filter_mol_opt)

lemma test_part_keys:
  assumes "(f, k) \<in> set (test_part fs ds)"
  shows "\<exists>tdb fh5. test_database ds = Some tdb \<and> f \<in> set tdb \<and> map_of fs f = Some fh5 \<and> k \<in> fst ` set fh5"
proof (cases "test_database ds")
  case None
  with assms show ?thesis by (simp add: test_part_def)
next
  case (Some tdb)
  with assms obtain fdata where "fdata \<in> set tdb" "(f, k) \<in> set (test_entries fs (select_pdb ds) fdata)"
    by (auto simp: test_part_def)
  with test_entries_keys [of f k fs "select_pdb ds" fdata] Some show ?thesis by auto
qed

lemma train_pool_part: "train_pool fs ds = train_part fs ds"
  by (simp add: train_pool_def create_index_molecules_parts train_part_def test_part_def)

lemma test_pool_part: "test_pool fs ds = test_part fs ds"
  by (simp add: test_pool_def create_index_molecules_parts train_part_def test_part_def
        split: option.splits)

lemma filter_conds_True:
  "filter_conds g conds = Inr True \<Longrightarrow> (cond_name, cv) \<in> set conds \<Longrightarrow>
     \<exists>v e. map_of (targets g) cond_name = Some v \<and> cv = CondStr e \<and> eval_expr v e"
  by (induction g conds rule: filter_conds.induct)
     (auto split: option.splits cond_vals.splits if_splits)


lemmas eval_index = create_index_molecules_def Let_def index_train_file_def index_test_file_def
  h5py_File_def mol_names_of_def filter_mol_def fs_ex_def file_a_def file_b_def ds_ex_def
  ds_train_def ds_none_def grp_def

text \<open>
  Claim C4.  In the list that \<^verbatim>\<open>create_index_molecules\<close> builds, the entries of the train
  pool come before the entries of the test pool: the first \<open>ntrain\<close> entries are exactly the
  entries drawn from the training files, the entries from \<open>ntrain\<close> to \<open>ntot\<close> are exactly
  the entries drawn from the test files, \<open>index_train\<close> and \<open>index_test\<close> are these two ranges
  of indices, and every entry of a pool names a file of that pool and a complex of that file.
  This holds for all lists of training and test files.
\<close>

theorem train_entries_precede_test_entries:
  fixes fs :: file_system and ds :: dataset
  defines "ds' \<equiv> create_index_molecules fs ds"
  shows "ntot ds' = length (index_complexes ds') \<and> ntrain ds' \<le> ntot ds' \<and>
         take (ntrain ds') (index_complexes ds') = train_pool fs ds \<and>
         drop (ntrain ds') (index_complexes ds') = test_pool fs ds \<and>
         index_train ds' = [0..<ntrain ds'] \<and> index_test ds' = [ntrain ds'..<ntot ds'] \<and>
         (\<forall>(fdata, k) \<in> set (train_pool fs ds).
            fdata \<in> set (database ds) \<and> (\<exists>fh5. h5py_File fs fdata = Inr fh5 \<and> k \<in> fst ` set fh5)) \<and>
         (\<forall>(fdata, k) \<in> set (test_pool fs ds).
            \<exists>tdb fh5. test_database ds = Some tdb \<and> fdata \<in> set tdb \<and>
              h5py_File fs fdata = Inr fh5 \<and> k \<in> fst ` set fh5)"
proof -
  have "\<forall>(fdata, k) \<in> set (train_pool fs ds).
            fdata \<in> set (database ds) \<and> (\<exists>fh5. h5py_File fs fdata = Inr fh5 \<and> k \<in> fst ` set fh5)"
    using train_part_kept [of _ _ fs ds] unfolding train_pool_part h5py_File_Inr by blast
  moreover have "\<forall>(fdata, k) \<in> set (test_pool fs ds).
            \<exists>tdb fh5. test_database ds = Some tdb \<and> fdata \<in> set tdb \<and>
              h5py_File fs fdata = Inr fh5 \<and> k \<in> fst ` set fh5"
    using test_part_keys [of _ _ fs ds] unfolding test_pool_part h5py_File_Inr by blast
  moreover have "ntot ds' = length (index_complexes ds') \<and> ntrain ds' \<le> ntot ds' \<and>
         take (ntrain ds') (index_complexes ds') = train_pool fs ds \<and>
         drop (ntrain ds') (index_complexes ds') = test_pool fs ds \<and>
         index_train ds' = [0..<ntrain ds'] \<and> index_test ds' = [ntrain ds'..<ntot ds']"
    unfolding ds'_def
    by (simp add: create_index_molecules_parts train_pool_part test_pool_part)
  ultimately show ?thesis by blast
qed

theorem train_entries_precede_test_entries_witness:
  "take (ntrain (create_index_molecules fs_ex ds_ex)) (index_complexes (create_index_molecules fs_ex ds_ex))
     = train_pool fs_ex ds_ex \<and>
   train_pool fs_ex ds_ex = [(''b.hdf5'', ''n1'')] \<and>
   drop (ntrain (create_index_molecules fs_ex ds_ex)) (index_complexes (create_index_molecules fs_ex ds_ex))
     = test_pool fs_ex ds_ex \<and>
   test_pool fs_ex ds_ex = [(''b.hdf5'', ''n1''), (''b.hdf5'', ''n2'')]"
proof -
  have a: "train_pool fs_ex ds_ex = [(''b.hdf5'', ''n1'')]"
    by (simp add: train_pool_def eval_index)
  have b: "test_pool fs_ex ds_ex = [(''b.hdf5'', ''n1''), (''b.hdf5'', ''n2'')]"
    by (simp add: test_pool_def eval_index)
  from train_entries_precede_test_entries [of fs_ex ds_ex]
  have "take (ntrain (create_index_molecules fs_ex ds_ex)) (index_complexes (create_index_molecules fs_ex ds_ex))
          = train_pool fs_ex ds_ex \<and>
        drop (ntrain (create_index_molecules fs_ex ds_ex)) (index_complexes (create_index_molecules fs_ex ds_ex))
          = test_pool fs_ex ds_ex"
    by blast
  with a b show ?thesis by blast
qed

text \<open>
  Claim C6, as stated: with a filter, every complex of the final list, of the train pool or
  of the test pool, satisfies the expression of every target the filter names.  It fails for
  the test pool, whose files are indexed without calling \<^verbatim>\<open>filter\<close>: the data set
  \<open>ds_ex\<close>, with the filter \<^verbatim>\<open>{'IRMSD': '<4'}\<close> and \<^verbatim>\<open>b.hdf5\<close> as test file, lists the
  complex \<^verbatim>\<open>n2\<close>, whose \<^verbatim>\<open>IRMSD\<close> is 5.
\<close>

theorem test_pool_not_filtered:
  "dict_filter ds_ex = Some [(''IRMSD'', CondStr (Lt 4))] \<and>
   index_complexes (create_index_molecules fs_ex ds_ex) ! 2 = (''b.hdf5'', ''n2'') \<and>
   h5py_File fs_ex ''b.hdf5'' = Inr file_b \<and>
   map_of file_b ''n2'' = Some (grp 5) \<and>
   map_of (targets (grp 5)) ''IRMSD'' = Some 5 \<and>
   \<not> eval_expr 5 (Lt 4)"
  by (simp add: eval_index)

text \<open>
  Claim C6, amended: with a filter, every complex of the train pool (the entries before
  \<open>ntrain\<close>) stores, for every target the filter names, a value that satisfies the expression
  given for that target.  The entries of the test pool are not filtered.
\<close>

theorem train_pool_satisfies_filter:
  assumes "dict_filter ds = Some conds"
    and "i < ntrain (create_index_molecules fs ds)"
    and "index_complexes (create_index_molecules fs ds) ! i = (fdata, k)"
    and "(cond_name, cv) \<in> set conds"
  shows "\<exists>fh5 molgrp val e. h5py_File fs fdata = Inr fh5 \<and> map_of fh5 k = Some molgrp \<and>
           map_of (targets molgrp) cond_name = Some val \<and> cv = CondStr e \<and> eval_expr val e"
proof -
  have "(fdata, k) \<in> set (train_part fs ds)"
    using assms(2,3) nth_mem [of i "train_part fs ds"]
    by (auto simp: create_index_molecules_parts nth_append split: if_splits)
  then obtain fh5 g where g: "map_of fs fdata = Some fh5" "map_of fh5 k = Some g"
      "filter_mol ds g = Inr True"
    using train_part_kept by blast
  then have "filter_conds g conds = Inr True"
    using assms(1) by (simp add: filter_mol_def)
  from filter_conds_True [OF this assms(4)] g show ?thesis
    by (auto simp: h5py_File_Inr)
qed

theorem train_pool_satisfies_filter_witness:
  "dict_filter ds_ex = Some [(''IRMSD'', CondStr (Lt 4))] \<and>
   0 < ntrain (create_index_molecules fs_ex ds_ex) \<and>
   index_complexes (create_index_molecules fs_ex ds_ex) ! 0 = (''b.hdf5'', ''n1'') \<and>
   (\<exists>fh5 molgrp val e. h5py_File fs_ex ''b.hdf5'' = Inr fh5 \<and> map_of fh5 ''n1'' = Some molgrp \<and>
      map_of (targets molgrp) ''IRMSD'' = Some val \<and> CondStr (Lt 4) = CondStr e \<and> eval_expr val e)"
proof -
  have a: "dict_filter ds_ex = Some [(''IRMSD'', CondStr (Lt 4))]"
    by (simp add: ds_ex_def)
  have b: "0 < ntrain (create_index_molecules fs_ex ds_ex)"
    by (simp add: eval_index)
  have c: "index_complexes (create_index_molecules fs_ex ds_ex) ! 0 = (''b.hdf5'', ''n1'')"
    by (simp add: eval_index)
  have d: "(''IRMSD'', CondStr (Lt 4)) \<in> set [(''IRMSD'', CondStr (Lt 4))]"
    by simp
  from train_pool_satisfies_filter [OF a b c d] a b c show ?thesis by blast
qed



text \<open>
  Claim C1 says that a complex that lacks a target named by the filter is left out and that
  the other complexes of its file are still indexed.  In \<open>ds_train\<close> the filter names
  \<^verbatim>\<open>IRMSD\<close> and the second complex of \<^verbatim>\<open>a.hdf5\<close> does not store it: the \<^verbatim>\<open>NameError\<close> of
  the handler in \<^verbatim>\<open>filter\<close> ends the loop over the file, the file is reported as ignored,
  and its third complex, which passes the filter, is not indexed.  The complex indexed
  before the exception stays, and the next file is indexed.
\<close>

theorem missing_target_drops_rest_of_file:
  "index_complexes (create_index_molecules fs_ex ds_train) = [(''a.hdf5'', ''m1''), (''b.hdf5'', ''n1'')] \<and>
   stdout (create_index_molecules fs_ex ds_train) = [IgnoreFile ''a.hdf5'', Inst NameError] \<and>
   map_of file_a ''m3'' = Some (grp 2) \<and>
   filter_mol ds_train (grp 2) = Inr True"
  by (simp add: eval_index)

section \<open>Targets\<close>

text \<open>
  Claim C2.  For fixed \<^verbatim>\<open>target_min\<close> and \<^verbatim>\<open>target_max\<close>, the latter not zero, normalizing
  target values, \<open>(t - min) / max\<close>, and transforming the result back, \<open>x * max + min\<close>,
  returns the values, over the reals.
\<close>

theorem backtransform_inverts_normalize:
  assumes "target_min ds = Some tmin" and "target_max ds = Some tmax" and "tmax \<noteq> 0"
  shows "\<exists>normalized. normalize_target ds target = Inr normalized \<and>
           normalized = map (\<lambda>t. (t - tmin) / tmax) target \<and>
           backtransform_target ds normalized = Inr target"
proof -
  have "map ((\<lambda>x. x * tmax + tmin) \<circ> (\<lambda>t. (t - tmin) / tmax)) target = target"
    using assms(3) by (induction target) simp_all
  then show ?thesis
    using assms(1,2) by (simp add: normalize_target_def backtransform_target_def)
qed

theorem backtransform_inverts_normalize_witness:
  "target_min ds_ex = Some 1 \<and> target_max ds_ex = Some 4 \<and> (4::real) \<noteq> 0 \<and>
   normalize_target ds_ex [3, 9] = Inr [1 / 2, 2] \<and>
   backtransform_target ds_ex [1 / 2, 2] = Inr [3, 9]"
proof -
  have a: "target_min ds_ex = Some 1" and b: "target_max ds_ex = Some 4" and c: "(4::real) \<noteq> 0"
    by (simp_all add: ds_ex_def)
  from backtransform_inverts_normalize [OF a b c, of "[3, 9]"] a b c show ?thesis
    by simp
qed

section \<open>Projection to two dimensions\<close>

text \<open>
  Claim C10.  For a four-dimensional array and a projection other than 0, 1 and 2,
  \<^verbatim>\<open>convert2d\<close> raises nothing and returns the array as it is.
\<close>

theorem convert2d_other_projection:
  assumes "length (shape feature) = 4" and "proj2d \<notin> {0, 1, 2}"
  shows "convert2d feature proj2d = Inr feature"
proof -
  obtain nc nx ny nz where "shape feature = [nc, nx, ny, nz]"
    using assms(1) by (auto simp: length_Suc_conv numeral_eq_Suc)
  with assms(2) show ?thesis by (simp add: convert2d_def)
qed

theorem convert2d_other_projection_witness:
  "length (shape feature_ex) = 4 \<and> (3::int) \<notin> {0, 1, 2} \<and> convert2d feature_ex 3 = Inr feature_ex"
proof -
  have a: "length (shape feature_ex) = 4" and b: "(3::int) \<notin> {0, 1, 2}"
    by (simp_all add: feature_ex_def)
  from convert2d_other_projection [OF a b] a b show ?thesis by blast
qed

section \<open>Feature names\<close>








section \<open>Pooled statistics\<close>

lemma pooled_mono:
  "set warned \<subseteq> set warned' \<Longrightarrow> pooled nfile ft warned x y \<Longrightarrow> pooled nfile ft warned' x y"
  by (auto simp: pooled_def split: prod.splits if_splits)

lemma process_feat_dict_pooled:
  assumes "0 < nfile"
  shows "\<exists>fd' warned. process_feat_dict nfile feat_types fd = Inr (fd', warned) \<and>
           list_all2 (pooled nfile feat_types warned) fd fd'"
proof (induction fd)
  case Nil
  then show ?case by simp
next
  case (Cons x fd)
  obtain feat p where x: "x = (feat, p)" by (cases x)
  from Cons obtain fd' warned where IH: "process_feat_dict nfile feat_types fd = Inr (fd', warned)"
     "list_all2 (pooled nfile feat_types warned) fd fd'"
    by blast
  define q where "q = p\<lparr>mean := mean p / real nfile, var := var p / real nfile, std := sqrt (var p / real nfile)\<rparr>"
  have pq: "process p nfile = Inr q"
    using assms by (simp add: process_def q_def)
  show ?case
  proof (cases "std q = 0")
    case True
    then have v: "var q = 0" by (simp add: q_def)
    have res: "process_feat_dict nfile feat_types (x # fd) =
        Inr ((feat, q\<lparr>std := 1\<rparr>) # fd', (feat_types, feat) # warned)"
      using x pq IH(1) True by simp
    have "pooled nfile feat_types ((feat_types, feat) # warned) x (feat, q\<lparr>std := 1\<rparr>)"
      using v x by (simp add: pooled_def q_def)
    moreover have "list_all2 (pooled nfile feat_types ((feat_types, feat) # warned)) fd fd'"
      using IH(2) by (rule list_all2_mono) (auto intro: pooled_mono)
    ultimately show ?thesis using res by simp
  next
    case False
    then have v: "var q \<noteq> 0" by (simp add: q_def)
    have res: "process_feat_dict nfile feat_types (x # fd) = Inr ((feat, q) # fd', warned)"
      using x pq IH(1) False by simp
    have "pooled nfile feat_types warned x (feat, q)"
      using v False x by (simp add: pooled_def q_def)
    then show ?thesis using res IH(2) by simp
  qed
qed

lemma pooled_type_mono:
  "set warned \<subseteq> set warned' \<Longrightarrow> pooled_type nfile warned x y \<Longrightarrow> pooled_type nfile warned' x y"
  unfolding pooled_type_def
  by (auto split: prod.splits elim!: list_all2_mono intro: pooled_mono)

lemma pooled_std: "pooled nfile ft warned x y \<Longrightarrow> std (snd y) \<noteq> 0"
  by (auto simp: pooled_def split: prod.splits)

lemma list_all2_pooled_std:
  "list_all2 (pooled nfile ft warned) fd fd' \<Longrightarrow> \<forall>(feat, p') \<in> set fd'. std p' \<noteq> 0"
  by (induction fd fd' rule: list_all2_induct) (auto dest: pooled_std)

lemma list_all2_pooled_type_std:
  "list_all2 (pooled_type nfile warned) feats feats' \<Longrightarrow>
     \<forall>(feat_types, fd') \<in> set feats'. \<forall>(feat, p') \<in> set fd'. std p' \<noteq> 0"
proof (induction feats feats' rule: list_all2_induct)
  case Nil
  then show ?case by simp
next
  case (Cons x xs y ys)
  obtain ft fd where x: "x = (ft, fd)" by (cases x)
  obtain ft' fd' where y: "y = (ft', fd')" by (cases y)
  have "list_all2 (pooled nfile ft warned) fd fd'"
    using Cons.hyps(1) x y by (simp add: pooled_type_def)
  from list_all2_pooled_std [OF this] Cons.IH y show ?case by simp
qed

text \<open>
  Claim C3.  For a file count that is not zero, the last loop of \<^verbatim>\<open>_read_norm\<close> returns,
  and in the dictionary it leaves every feature has a standard deviation other than zero:
  a feature whose pooled variance is zero has the standard deviation 1 and is among the
  warnings, and its pooled mean is the one that \<^verbatim>\<open>process\<close> computed.
\<close>

theorem pooled_std_never_zero:
  assumes "0 < nfile"
  shows "\<exists>feats' warned. process_std nfile feats = Inr (feats', warned) \<and>
           list_all2 (pooled_type nfile warned) feats feats' \<and>
           (\<forall>(feat_types, fd') \<in> set feats'. \<forall>(feat, p') \<in> set fd'. std p' \<noteq> 0)"
proof -
  have "\<exists>feats' warned. process_std nfile feats = Inr (feats', warned) \<and>
           list_all2 (pooled_type nfile warned) feats feats'"
  proof (induction feats)
    case Nil
    then show ?case by simp
  next
    case (Cons x feats)
    obtain ft fd where x: "x = (ft, fd)" by (cases x)
    obtain fd' w1 where a: "process_feat_dict nfile ft fd = Inr (fd', w1)"
        "list_all2 (pooled nfile ft w1) fd fd'"
      using process_feat_dict_pooled [OF assms] by blast
    from Cons obtain feats' w2 where b: "process_std nfile feats = Inr (feats', w2)"
        "list_all2 (pooled_type nfile w2) feats feats'"
      by blast
    have res: "process_std nfile (x # feats) = Inr ((ft, fd') # feats', w1 @ w2)"
      using x a(1) b(1) by simp
    have h: "list_all2 (pooled nfile ft (w1 @ w2)) fd fd'"
      using a(2) by (rule list_all2_mono) (auto intro: pooled_mono)
    have t: "list_all2 (pooled_type nfile (w1 @ w2)) feats feats'"
      using b(2) by (rule list_all2_mono) (auto intro: pooled_type_mono)
    have "list_all2 (pooled_type nfile (w1 @ w2)) (x # feats) ((ft, fd') # feats')"
      using h t x by (simp add: pooled_type_def)
    with res show ?case by blast
  qed
  then obtain feats' warned where r: "process_std nfile feats = Inr (feats', warned)"
      "list_all2 (pooled_type nfile warned) feats feats'"
    by blast
  from list_all2_pooled_type_std [OF r(2)] r show ?thesis by blast
qed

theorem pooled_std_never_zero_witness:
  "(0::nat) < 2 \<and>
   (\<exists>feats' warned. process_std 2 feats_ex = Inr (feats', warned) \<and>
      list_all2 (pooled_type 2 warned) feats_ex feats' \<and>
      feats' = [(''Feature_ind'',
                [(''coulomb_chainA'', \<lparr>mean = 2, var = 1, std = 1\<rparr>),
                 (''coulomb_chainB'', \<lparr>mean = 2, var = 0, std = 1\<rparr>)])] \<and>
      warned = [(''Feature_ind'', ''coulomb_chainB'')])"
proof -
  have a: "(0::nat) < 2" by simp
  have b: "process_std 2 feats_ex =
      Inr ([(''Feature_ind'',
             [(''coulomb_chainA'', \<lparr>mean = 2, var = 1, std = 1\<rparr>),
              (''coulomb_chainB'', \<lparr>mean = 2, var = 0, std = 1\<rparr>)])],
           [(''Feature_ind'', ''coulomb_chainB'')])"
    by (simp add: feats_ex_def add_def NormParam_init_def process_def)
  from pooled_std_never_zero [OF a, of feats_ex] b a show ?thesis
    by auto
qed

section \<open>Clipping\<close>

lemma length_chan_update [simp]: "length (chan_update g sz C xs) = length xs"
  by (simp add: chan_update_def)


lemma chan_update_empty [simp]: "chan_update g sz {} xs = xs"
  by (simp add: chan_update_def map_nth)














section \<open>Items\<close>


lemma sum_case_prod_Inr_iff:
  "(case x of Inl e \<Rightarrow> Inl e | Inr (a, b) \<Rightarrow> f a b) = Inr y \<longleftrightarrow>
     (\<exists>a b. x = Inr (a, b) \<and> f a b = Inr y)"
  by (cases x) auto



end
